theory Spec2Isabelle
  imports Complex_Main
begin

section \<open>Python values shared by the modules\<close>

text \<open>
  Python exceptions are values. \<open>HTTPException\<close> carries the status code and the detail
  of FastAPI's exception; the other constructors carry the message of the exception.
  A function that can raise returns \<open>exn + 'a\<close> with \<open>Inl\<close> for the raised exception.
  Python floats are idealised as real numbers throughout.
\<close>

datatype exn =
    HTTPException nat string
  | RuntimeError string
  | ValueError string
  | IndexError string
  | ZeroDivisionError string
  | UnidentifiedImageError string
  | OSError string
  | OtherException string

text \<open>\<open>e1 \<bind> f\<close> of the exception monad: the first raise wins.\<close>

definition bind_exn :: "exn + 'a \<Rightarrow> ('a \<Rightarrow> exn + 'b) \<Rightarrow> exn + 'b" where
  "bind_exn r f = (case r of Inl e \<Rightarrow> Inl e | Inr v \<Rightarrow> f v)"

text \<open>\<open>xs[i]\<close> for a non-negative index: IndexError out of range.\<close>

definition py_nth :: "'a list \<Rightarrow> nat \<Rightarrow> exn + 'a" where
  "py_nth xs i = (if i < length xs then Inr (xs ! i) else Inl (IndexError ''list index out of range''))"

text \<open>Decimal rendering of a number inside an f-string.\<close>

definition digit_char :: "nat \<Rightarrow> char" where
  "digit_char d = char_of (48 + d)"

fun str_nat :: "nat \<Rightarrow> string" where
  "str_nat n = (if n < 10 then [digit_char n] else str_nat (n div 10) @ [digit_char (n mod 10)])"

declare str_nat.simps [simp del]

definition str_int :: "int \<Rightarrow> string" where
  "str_int i = (if i < 0 then CHR ''-'' # str_nat (nat (- i)) else str_nat (nat i))"

text \<open>\<open>str(e)\<close>. Starlette renders an HTTPException as its status code and detail.\<close>

fun str_exn :: "exn \<Rightarrow> string" where
  "str_exn (HTTPException c d) = str_nat c @ '': '' @ d"
| "str_exn (RuntimeError m) = m"
| "str_exn (ValueError m) = m"
| "str_exn (IndexError m) = m"
| "str_exn (ZeroDivisionError m) = m"
| "str_exn (UnidentifiedImageError m) = m"
| "str_exn (OSError m) = m"
| "str_exn (OtherException m) = m"

text \<open>
  String methods, on ASCII: a \<open>char\<close> is a byte, so \<open>lower\<close> and \<open>strip\<close> leave the
  bytes of a non-ASCII character alone.
\<close>

definition py_lower_char :: "char \<Rightarrow> char" where
  "py_lower_char c = (let n = (of_char c :: nat) in if 65 \<le> n \<and> n \<le> 90 then char_of (n + 32) else c)"

definition py_lower :: "string \<Rightarrow> string" where
  "py_lower s = map py_lower_char s"

definition py_isspace :: "char \<Rightarrow> bool" where
  "py_isspace c = (let n = (of_char c :: nat) in (9 \<le> n \<and> n \<le> 13) \<or> (28 \<le> n \<and> n \<le> 32))"

definition py_strip :: "string \<Rightarrow> string" where
  "py_strip s = rev (dropWhile py_isspace (rev (dropWhile py_isspace s)))"

fun py_join :: "string \<Rightarrow> string list \<Rightarrow> string" where
  "py_join sep [] = []"
| "py_join sep [x] = x"
| "py_join sep (x # y # ys) = x @ sep @ py_join sep (y # ys)"

text \<open>\<open>s.split(sep)\<close> for a separator of one character.\<close>

fun py_split :: "char \<Rightarrow> string \<Rightarrow> string list" where
  "py_split sep [] = [[]]"
| "py_split sep (c # cs) =
     (if c = sep then [] # py_split sep cs
      else (case py_split sep cs of [] \<Rightarrow> [[c]] | x # xs \<Rightarrow> (c # x) # xs))"

definition py_startswith :: "string \<Rightarrow> string \<Rightarrow> bool" where
  "py_startswith s pre = (take (length pre) s = pre)"

text \<open>\<open>int(x)\<close> on a number truncates towards zero; \<open>a / b\<close> raises on a zero divisor.\<close>

definition py_int :: "real \<Rightarrow> int" where
  "py_int x = (if 0 \<le> x then \<lfloor>x\<rfloor> else \<lceil>x\<rceil>)"

definition py_truediv :: "real \<Rightarrow> real \<Rightarrow> exn + real" where
  "py_truediv a b = (if b = 0 then Inl (ZeroDivisionError ''division by zero'') else Inr (a / b))"

section \<open>model.py: the classifier facade\<close>

text \<open>
  The tokenizer and the pretrained model are external. \<open>forward\<close> stands for
  tokenizing a batch of texts and reading \<open>outputs.logits\<close>: one row of logits per text,
  or the exception the library raised. \<open>from_pretrained\<close> is the outcome of loading
  the tokenizer and the model (\<open>None\<close>: loaded), \<open>id2label\<close> the label table of
  the model's config when it has one.
\<close>

record hf_model =
  from_pretrained :: "exn option"
  forward :: "string list \<Rightarrow> exn + real list list"
  id2label :: "(nat \<times> string) list option"

record classifier =
  model_loaded :: bool

definition new_classifier :: classifier where
  "new_classifier = \<lparr>model_loaded = False\<rparr>"

definition load_model :: "hf_model \<Rightarrow> classifier \<Rightarrow> exn + classifier" where
  "load_model hf c =
     (case from_pretrained hf of
        Some e \<Rightarrow> Inl e
      | None \<Rightarrow> Inr (c\<lparr>model_loaded := True\<rparr>))"

record prediction =
  predicted_class :: nat
  confidence :: real
  all_scores :: "real list"
  predicted_label :: "string option"
  all_labels :: "(string \<rightharpoonup> real) option"

text \<open>\<open>torch.softmax(logits, dim=-1)\<close> on one row.\<close>

definition softmax :: "real list \<Rightarrow> real list" where
  "softmax xs = map (\<lambda>x. exp x / sum_list (map exp xs)) xs"

text \<open>
  \<open>torch.argmax\<close> on one row: the index of the first maximal entry. The callers
  guard the empty row, where torch raises.
\<close>

fun argmax :: "real list \<Rightarrow> nat" where
  "argmax [] = 0"
| "argmax [x] = 0"
| "argmax (x # y # ys) = (let j = argmax (y # ys) in if x < (y # ys) ! j then Suc j else 0)"

text \<open>\<open>id2label.get(i, f"LABEL_{i}")\<close>\<close>

definition label_of :: "(nat \<times> string) list \<Rightarrow> nat \<Rightarrow> string" where
  "label_of tbl i = (case map_of tbl i of Some l \<Rightarrow> l | None \<Rightarrow> ''LABEL_'' @ str_nat i)"

text \<open>
  The dict comprehension over \<open>enumerate(all_scores)\<close>: a later index overwrites an
  earlier one that has the same label.
\<close>

definition labels_dict :: "(nat \<times> string) list \<Rightarrow> real list \<Rightarrow> (string \<rightharpoonup> real)" where
  "labels_dict tbl scores =
     fold (\<lambda>(i, score) m. m(label_of tbl i \<mapsto> score)) (zip [0..<length scores] scores) Map.empty"

text \<open>
  The part of \<open>predict\<close> and of the loop body of \<open>predict_batch\<close> after the softmax:
  the result dictionary of one row of probabilities.
\<close>

definition make_result :: "hf_model \<Rightarrow> real list \<Rightarrow> prediction" where
  "make_result hf probs =
     (let pc = argmax probs;
          conf = probs ! pc;
          result = \<lparr>predicted_class = pc, confidence = conf, all_scores = probs,
                    predicted_label = None, all_labels = None\<rparr>
      in (case id2label hf of
            None \<Rightarrow> result
          | Some tbl \<Rightarrow>
              if tbl = [] then result
              else result\<lparr>predicted_label := Some (label_of tbl pc),
                          all_labels := Some (labels_dict tbl probs)\<rparr>))"

definition row_result :: "hf_model \<Rightarrow> real list \<Rightarrow> exn + prediction" where
  "row_result hf probs =
     (if probs = [] then Inl (IndexError ''argmax(): Expected reduction dim to have non-zero size'')
      else Inr (make_result hf probs))"

text \<open>
  \<open>LegalTextClassifier.predict\<close>. A single string is tokenized as a batch of one;
  \<open>.item()\<close> raises unless the argmax tensor has exactly one element.
\<close>

definition predict :: "hf_model \<Rightarrow> classifier \<Rightarrow> string \<Rightarrow> exn + prediction" where
  "predict hf c txt =
     (if \<not> model_loaded c then Inl (RuntimeError ''Model not loaded. Call load_model() first.'')
      else
        bind_exn (forward hf [txt]) (\<lambda>logits.
          let probabilities = map softmax logits in
          if length probabilities \<noteq> 1
          then Inl (RuntimeError ''a Tensor with several elements cannot be converted to Scalar'')
          else row_result hf (probabilities ! 0)))"

text \<open>The loop \<open>for i in range(len(texts))\<close> of \<open>predict_batch\<close>, with \<open>results\<close> as accumulator.\<close>

fun batch_loop :: "hf_model \<Rightarrow> real list list \<Rightarrow> nat list \<Rightarrow> prediction list \<Rightarrow> exn + prediction list" where
  "batch_loop hf probabilities [] results = Inr results"
| "batch_loop hf probabilities (i # is) results =
     bind_exn (py_nth probabilities i) (\<lambda>row.
       bind_exn (row_result hf row) (\<lambda>result.
         batch_loop hf probabilities is (results @ [result])))"

definition predict_batch :: "hf_model \<Rightarrow> classifier \<Rightarrow> string list \<Rightarrow> exn + prediction list" where
  "predict_batch hf c texts =
     (if \<not> model_loaded c then Inl (RuntimeError ''Model not loaded. Call load_model() first.'')
      else
        bind_exn (forward hf texts) (\<lambda>logits.
          let probabilities = map softmax logits in
          batch_loop hf probabilities [0..<length texts] []))"

section \<open>ocr_model.py: the OCR facade\<close>

text \<open>
  A PIL image is the bytes it was opened from. A bounding box is the quadrilateral of
  EasyOCR or the four integers computed for Tesseract.
\<close>

datatype image = Image string

datatype box = Quad "real list list" | Box "int list"

record ocr_line =
  line_text :: string
  line_confidence :: real
  bbox :: box

record ocr_result =
  ocr_text :: string
  lines :: "ocr_line list"
  average_confidence :: real
  engine_name :: string

text \<open>
  The dictionary of \<open>pytesseract.image_to_data\<close>, one list per column. A confidence is
  a Python number (an int, or a float in some versions); coordinates are ints.
\<close>

record tess_data =
  d_text :: "string list"
  d_conf :: "real list"
  d_left :: "int list"
  d_top :: "int list"
  d_width :: "int list"
  d_height :: "int list"

text \<open>
  The OCR libraries are external: whether each import succeeded, the outcome of building
  an EasyOCR reader for a language list and of probing the Tesseract binary (\<open>None\<close>:
  no exception), and what the recognition calls return for an image. \<open>Image.open\<close>
  does not decode the pixels: that happens inside these calls (\<open>readtext\<close> includes
  the conversion of the image to an array), which raise when it fails.
\<close>

record ocr_libs =
  EASYOCR_AVAILABLE :: bool
  PYTESSERACT_AVAILABLE :: bool
  easyocr_Reader :: "string list \<Rightarrow> exn option"
  get_tesseract_version :: "exn option"
  readtext :: "string list \<Rightarrow> image \<Rightarrow> exn + (box \<times> string \<times> real) list"
  image_to_string :: "image \<Rightarrow> string \<Rightarrow> exn + string"
  image_to_data :: "image \<Rightarrow> string \<Rightarrow> exn + tess_data"

text \<open>
  \<open>class OCRProcessor\<close>. The field \<open>reader\<close> holds the language list the EasyOCR reader
  was built for.
\<close>

record OCRProcessor =
  engine :: string
  languages :: "string list"
  reader :: "string list option"
  initialized :: bool

text \<open>\<open>languages or ['vi', 'en']\<close>: \<open>None\<close> and the empty list are both falsy.\<close>

definition languages_or_default :: "string list option \<Rightarrow> string list" where
  "languages_or_default langs =
     (case langs of None \<Rightarrow> [''vi'', ''en''] | Some ls \<Rightarrow> if ls = [] then [''vi'', ''en''] else ls)"

definition OCRProcessor_init :: "string \<Rightarrow> string list option \<Rightarrow> OCRProcessor" where
  "OCRProcessor_init eng langs =
     \<lparr>engine = py_lower eng, languages = languages_or_default langs, reader = None, initialized = False\<rparr>"

definition initialize :: "ocr_libs \<Rightarrow> OCRProcessor \<Rightarrow> exn + OCRProcessor" where
  "initialize libs p =
     (if initialized p then Inr p
      else if engine p = ''easyocr'' then
        (if \<not> EASYOCR_AVAILABLE libs then Inl (RuntimeError ''EasyOCR is not installed'')
         else (case easyocr_Reader libs (languages p) of
                 Some e \<Rightarrow> Inl e
               | None \<Rightarrow> Inr (p\<lparr>reader := Some (languages p), initialized := True\<rparr>)))
      else if engine p = ''tesseract'' then
        (if \<not> PYTESSERACT_AVAILABLE libs then Inl (RuntimeError ''pytesseract is not installed'')
         else (case get_tesseract_version libs of
                 Some e \<Rightarrow> Inl (RuntimeError
                   (''Tesseract executable not found. Please install tesseract-ocr. Original error: '' @ str_exn e))
               | None \<Rightarrow> Inr (p\<lparr>initialized := True\<rparr>)))
      else Inl (ValueError (''Unknown OCR engine: '' @ engine p)))"

text \<open>\<open>sum(confidences) / len(confidences) if confidences else 0.0\<close>\<close>

definition avg_confidence :: "real list \<Rightarrow> exn + real" where
  "avg_confidence confidences =
     (if confidences \<noteq> [] then py_truediv (sum_list confidences) (real (length confidences))
      else Inr 0)"

text \<open>The loop of \<open>_process_with_easyocr\<close> over the detections, with its three accumulators.\<close>

fun easyocr_loop ::
  "(box \<times> string \<times> real) list \<Rightarrow> ocr_line list \<Rightarrow> real list \<Rightarrow> string list \<Rightarrow>
   ocr_line list \<times> real list \<times> string list" where
  "easyocr_loop [] texts confidences full_text = (texts, confidences, full_text)"
| "easyocr_loop ((b, t, c) # results) texts confidences full_text =
     easyocr_loop results
       (texts @ [\<lparr>line_text = t, line_confidence = c, bbox = b\<rparr>])
       (confidences @ [c])
       (full_text @ [t])"

definition process_with_easyocr :: "ocr_libs \<Rightarrow> OCRProcessor \<Rightarrow> image \<Rightarrow> exn + ocr_result" where
  "process_with_easyocr libs p img =
     (case reader p of
        None \<Rightarrow> Inl (OtherException ''NoneType object has no attribute readtext'')
      | Some ls \<Rightarrow>
          bind_exn (readtext libs ls img) (\<lambda>results.
            case easyocr_loop results [] [] [] of
              (texts, confidences, full_text) \<Rightarrow>
                bind_exn (avg_confidence confidences) (\<lambda>avg.
                  Inr \<lparr>ocr_text = py_join '' '' full_text, lines = texts,
                       average_confidence = avg, engine_name = ''easyocr''\<rparr>)))"

definition lang_map :: "string \<Rightarrow> string" where
  "lang_map l = (if l = ''vi'' then ''vie'' else if l = ''en'' then ''eng'' else l)"

definition lang_string :: "OCRProcessor \<Rightarrow> string" where
  "lang_string p = py_join ''+'' (map lang_map (languages p))"

text \<open>
  The loop \<open>for i in range(n_boxes)\<close> of \<open>_process_with_tesseract\<close>. Every column is
  read by index, so a column shorter than the text column raises IndexError.
\<close>

fun tesseract_loop ::
  "tess_data \<Rightarrow> nat list \<Rightarrow> ocr_line list \<Rightarrow> real list \<Rightarrow> exn + (ocr_line list \<times> real list)" where
  "tesseract_loop d [] lns confidences = Inr (lns, confidences)"
| "tesseract_loop d (i # is) lns confidences =
     bind_exn (py_nth (d_conf d) i) (\<lambda>c.
       if 0 < py_int c then
         bind_exn (py_nth (d_text d) i) (\<lambda>t.
         bind_exn (py_nth (d_left d) i) (\<lambda>l.
         bind_exn (py_nth (d_top d) i) (\<lambda>tp.
         bind_exn (py_nth (d_width d) i) (\<lambda>wd.
         bind_exn (py_nth (d_height d) i) (\<lambda>h.
           tesseract_loop d is
             (lns @ [\<lparr>line_text = t, line_confidence = c / 100, bbox = Box [l, tp, l + wd, tp + h]\<rparr>])
             (confidences @ [c / 100]))))))
       else tesseract_loop d is lns confidences)"

definition process_with_tesseract :: "ocr_libs \<Rightarrow> OCRProcessor \<Rightarrow> image \<Rightarrow> exn + ocr_result" where
  "process_with_tesseract libs p img =
     bind_exn (image_to_string libs img (lang_string p)) (\<lambda>txt.
     bind_exn (image_to_data libs img (lang_string p)) (\<lambda>d.
     bind_exn (tesseract_loop d [0..<length (d_text d)] [] []) (\<lambda>(lns, confidences).
     bind_exn (avg_confidence confidences) (\<lambda>avg.
       Inr \<lparr>ocr_text = py_strip txt, lines = lns,
            average_confidence = avg, engine_name = ''tesseract''\<rparr>))))"

text \<open>
  What the loop of \<open>_process_with_tesseract\<close> does, said without the loop: the boxes it
  keeps are the indices whose confidence passes \<open>int(conf) > 0\<close>, and each kept box
  gives the line built from its row of the table.
\<close>

definition kept_boxes :: "tess_data \<Rightarrow> nat list" where
  "kept_boxes d = filter (\<lambda>i. 0 < py_int (d_conf d ! i)) [0..<length (d_text d)]"

definition box_line :: "tess_data \<Rightarrow> nat \<Rightarrow> ocr_line" where
  "box_line d i =
     \<lparr>line_text = d_text d ! i, line_confidence = d_conf d ! i / 100,
      bbox = Box [d_left d ! i, d_top d ! i, d_left d ! i + d_width d ! i, d_top d ! i + d_height d ! i]\<rparr>"

text \<open>
  \<open>OCRProcessor.process_image\<close>: the result, and the processor as the call leaves it
  (a first call initializes it).
\<close>

definition process_image :: "ocr_libs \<Rightarrow> OCRProcessor \<Rightarrow> image \<Rightarrow> (exn + ocr_result) \<times> OCRProcessor" where
  "process_image libs p img =
     (case (if \<not> initialized p then initialize libs p else Inr p) of
        Inl e \<Rightarrow> (Inl e, p)
      | Inr p' \<Rightarrow>
          (if engine p' = ''easyocr'' then process_with_easyocr libs p' img
           else if engine p' = ''tesseract'' then process_with_tesseract libs p' img
           else Inl (ValueError (''Unknown OCR engine: '' @ engine p')),
           p'))"

section \<open>The process-wide state\<close>

text \<open>
  The module globals \<open>model_instance\<close> and \<open>_ocr_processor\<close>. Python compares
  instances by identity, so every constructed \<open>OCRProcessor\<close> gets a fresh object
  number from \<open>next_object\<close>. \<open>calls\<close> is a ghost log of the calls the HTTP layer
  makes into its collaborators, oldest first.
\<close>

datatype call =
    CallImageOpen
  | CallGetOcrProcessor
  | CallProcessImage
  | CallGetModel
  | CallPredict string
  | CallPredictBatch "string list"

record world =
  model_instance :: "classifier option"
  ocr_processor :: "(nat \<times> OCRProcessor) option"
  next_object :: nat
  calls :: "call list"

definition log_call :: "call \<Rightarrow> world \<Rightarrow> world" where
  "log_call c w = w\<lparr>calls := calls w @ [c]\<rparr>"

text \<open>
  \<open>get_model\<close>. The new instance is bound to the global before \<open>load_model\<close> runs, so
  it stays there, not loaded, when loading raises.
\<close>

definition get_model :: "hf_model \<Rightarrow> world \<Rightarrow> (exn + classifier) \<times> world" where
  "get_model hf w =
     (case model_instance w of
        None \<Rightarrow>
          (let w1 = w\<lparr>model_instance := Some new_classifier\<rparr> in
           case load_model hf new_classifier of
             Inl e \<Rightarrow> (Inl e, w1)
           | Inr c \<Rightarrow> (Inr c, w1\<lparr>model_instance := Some c\<rparr>))
      | Some c \<Rightarrow> (Inr c, w))"

text \<open>The branch of \<open>get_ocr_processor\<close> that constructs and initializes a new processor.\<close>

definition new_ocr_processor ::
  "ocr_libs \<Rightarrow> string \<Rightarrow> string list \<Rightarrow> world \<Rightarrow> (exn + nat \<times> OCRProcessor) \<times> world" where
  "new_ocr_processor libs eng langs w =
     (let p = OCRProcessor_init eng (Some langs);
          obj = next_object w;
          w1 = w\<lparr>ocr_processor := Some (obj, p), next_object := Suc obj\<rparr>
      in case initialize libs p of
           Inl e \<Rightarrow> (Inl e, w1)
         | Inr p' \<Rightarrow> (Inr (obj, p'), w1\<lparr>ocr_processor := Some (obj, p')\<rparr>))"

definition get_ocr_processor ::
  "ocr_libs \<Rightarrow> string \<Rightarrow> string list option \<Rightarrow> world \<Rightarrow> (exn + nat \<times> OCRProcessor) \<times> world" where
  "get_ocr_processor libs eng languages_arg w =
     (let langs = languages_or_default languages_arg in
      case ocr_processor w of
        None \<Rightarrow> new_ocr_processor libs eng langs w
      | Some (obj, p) \<Rightarrow>
          if engine p \<noteq> eng \<or> languages p \<noteq> langs then new_ocr_processor libs eng langs w
          else (Inr (obj, p), w))"

section \<open>config.py and api.py: the HTTP layer\<close>

record Settings =
  ocr_engine :: string
  ocr_languages :: string
  max_upload_size :: int

text \<open>
  Everything a request handler reaches outside the process state: the settings, the
  transformers model, the OCR libraries, and \<open>Image.open\<close> on the uploaded bytes.
\<close>

record env =
  env_settings :: Settings
  env_hf :: hf_model
  env_libs :: ocr_libs
  Image_open :: "string \<Rightarrow> exn + image"

record UploadFile =
  content_type :: "string option"
  file_bytes :: string

record HealthResponse =
  status :: string
  health_model_loaded :: bool

record OCRWithClassificationResponse =
  ocr_result :: ocr_result
  classification :: "prediction option"

text \<open>
  A handler returns \<open>Inr\<close> of its response, or \<open>Inl\<close> of the exception that leaves it,
  and the process state as it leaves it.
\<close>

definition health :: "env \<Rightarrow> world \<Rightarrow> (exn + HealthResponse) \<times> world" where
  "health env w =
     (case get_model (env_hf env) (log_call CallGetModel w) of
        (Inl e, w1) \<Rightarrow> (Inl (HTTPException 503 (''Service unhealthy: '' @ str_exn e)), w1)
      | (Inr m, w1) \<Rightarrow> (Inr \<lparr>status = ''healthy'', health_model_loaded = model_loaded m\<rparr>, w1))"

definition api_predict :: "env \<Rightarrow> string \<Rightarrow> world \<Rightarrow> (exn + prediction) \<times> world" where
  "api_predict env txt w =
     (case get_model (env_hf env) (log_call CallGetModel w) of
        (Inl e, w1) \<Rightarrow> (Inl (HTTPException 500 (''Prediction failed: '' @ str_exn e)), w1)
      | (Inr m, w1) \<Rightarrow>
          (case predict (env_hf env) m txt of
             Inl e \<Rightarrow> Inl (HTTPException 500 (''Prediction failed: '' @ str_exn e))
           | Inr result \<Rightarrow> Inr result,
           log_call (CallPredict txt) w1))"

definition api_predict_batch :: "env \<Rightarrow> string list \<Rightarrow> world \<Rightarrow> (exn + prediction list) \<times> world" where
  "api_predict_batch env texts w =
     (case get_model (env_hf env) (log_call CallGetModel w) of
        (Inl e, w1) \<Rightarrow> (Inl (HTTPException 500 (''Batch prediction failed: '' @ str_exn e)), w1)
      | (Inr m, w1) \<Rightarrow>
          (case predict_batch (env_hf env) m texts of
             Inl e \<Rightarrow> Inl (HTTPException 500 (''Batch prediction failed: '' @ str_exn e))
           | Inr results \<Rightarrow> Inr results,
           log_call (CallPredictBatch texts) w1))"

text \<open>
  \<open>validate_and_load_image\<close>. Only \<open>UnidentifiedImageError\<close> and \<open>OSError\<close> from
  \<open>Image.open\<close> become a 400; any other exception passes through to the caller.
\<close>

definition validate_and_load_image :: "env \<Rightarrow> UploadFile \<Rightarrow> world \<Rightarrow> (exn + image) \<times> world" where
  "validate_and_load_image env file w =
     (if (case content_type file of None \<Rightarrow> True | Some ct \<Rightarrow> ct = [] \<or> \<not> py_startswith ct ''image/'')
      then (Inl (HTTPException 400 ''File must be an image''), w)
      else
        let image_data = file_bytes file in
        if int (length image_data) > max_upload_size (env_settings env)
        then (Inl (HTTPException 413
                (''File too large. Maximum size: '' @ str_int (max_upload_size (env_settings env)) @ '' bytes'')), w)
        else
          (case Image_open env image_data of
             Inr img \<Rightarrow> Inr img
           | Inl (UnidentifiedImageError m) \<Rightarrow> Inl (HTTPException 400 (''Invalid image file: '' @ m))
           | Inl (OSError m) \<Rightarrow> Inl (HTTPException 400 (''Invalid image file: '' @ m))
           | Inl e \<Rightarrow> Inl e,
           log_call CallImageOpen w))"

definition get_configured_ocr_processor :: "env \<Rightarrow> world \<Rightarrow> (exn + nat \<times> OCRProcessor) \<times> world" where
  "get_configured_ocr_processor env w =
     (let langs = map py_strip (py_split CHR '','' (ocr_languages (env_settings env)))
      in get_ocr_processor (env_libs env) (ocr_engine (env_settings env)) (Some langs) w)"

text \<open>
  The first three statements of both upload handlers: validate and load the image, get
  the configured processor, process the image. The processor is the global object, so
  what \<open>process_image\<close> does to it is written back to the state.
\<close>

definition ocr_stage :: "env \<Rightarrow> UploadFile \<Rightarrow> world \<Rightarrow> (exn + ocr_result) \<times> world" where
  "ocr_stage env file w =
     (case validate_and_load_image env file w of
        (Inl e, w1) \<Rightarrow> (Inl e, w1)
      | (Inr img, w1) \<Rightarrow>
          (case get_configured_ocr_processor env (log_call CallGetOcrProcessor w1) of
             (Inl e, w2) \<Rightarrow> (Inl e, w2)
           | (Inr (obj, p), w2) \<Rightarrow>
               (case process_image (env_libs env) p img of
                  (r, p') \<Rightarrow> (r, (log_call CallProcessImage w2)\<lparr>ocr_processor := Some (obj, p')\<rparr>))))"

text \<open>
  The handlers' \<open>except HTTPException: raise\<close> and
  \<open>except Exception as e: raise HTTPException(status_code=500, ...)\<close>.
\<close>

definition ocr_handler :: "exn \<Rightarrow> exn" where
  "ocr_handler e =
     (case e of
        HTTPException c d \<Rightarrow> HTTPException c d
      | _ \<Rightarrow> HTTPException 500 (''OCR processing failed: '' @ str_exn e))"


text \<open>The body of the inner \<open>try\<close> of \<open>ocr_upload_and_classify\<close>.\<close>

definition classify :: "env \<Rightarrow> string \<Rightarrow> world \<Rightarrow> (exn + prediction) \<times> world" where
  "classify env txt w =
     (case get_model (env_hf env) (log_call CallGetModel w) of
        (Inl e, w1) \<Rightarrow> (Inl e, w1)
      | (Inr m, w1) \<Rightarrow> (predict (env_hf env) m txt, log_call (CallPredict txt) w1))"

definition ocr_upload_and_classify ::
  "env \<Rightarrow> UploadFile \<Rightarrow> world \<Rightarrow> (exn + OCRWithClassificationResponse) \<times> world" where
  "ocr_upload_and_classify env file w =
     (case ocr_stage env file w of
        (Inl e, w1) \<Rightarrow> (Inl (ocr_handler e), w1)
      | (Inr result, w1) \<Rightarrow>
          if py_strip (ocr_text result) \<noteq> [] then
            (case classify env (ocr_text result) w1 of
               (Inl e, w2) \<Rightarrow> (Inr \<lparr>ocr_result = result, classification = None\<rparr>, w2)
             | (Inr c, w2) \<Rightarrow> (Inr \<lparr>ocr_result = result, classification = Some c\<rparr>, w2))
          else (Inr \<lparr>ocr_result = result, classification = None\<rparr>, w1))"




text \<open>The calls into the OCR processor or the classifier among a list of calls.\<close>

fun is_model_call :: "call \<Rightarrow> bool" where
  "is_model_call CallImageOpen = False"
| "is_model_call c = True"

fun is_classifier_call :: "call \<Rightarrow> bool" where
  "is_classifier_call CallGetModel = True"
| "is_classifier_call (CallPredict t) = True"
| "is_classifier_call (CallPredictBatch ts) = True"
| "is_classifier_call c = False"

section \<open>Example collaborators\<close>

definition demo_hf :: hf_model where
  "demo_hf = \<lparr>from_pretrained = None,
              forward = (\<lambda>ts. Inr (map (\<lambda>t. [real (length t), 1]) ts)),
              id2label = Some [(0, ''civil''), (1, ''criminal'')]\<rparr>"

definition loaded :: classifier where
  "loaded = \<lparr>model_loaded = True\<rparr>"

definition demo_quad :: box where
  "demo_quad = Quad [[0, 0], [40, 0], [40, 12], [0, 12]]"

definition demo_data :: tess_data where
  "demo_data = \<lparr>d_text = ['''', ''Dieu'', ''1.'', ''x''], d_conf = [-1, 96, 50, 0],
                d_left = [0, 10, 60, 90], d_top = [0, 80, 80, 80],
                d_width = [800, 45, 20, 5], d_height = [200, 24, 24, 24]\<rparr>"

definition demo_libs :: ocr_libs where
  "demo_libs = \<lparr>EASYOCR_AVAILABLE = True, PYTESSERACT_AVAILABLE = True,
                easyocr_Reader = (\<lambda>ls. None), get_tesseract_version = None,
                readtext = (\<lambda>ls img. Inr [(demo_quad, ''Dieu'', 9 / 10), (demo_quad, ''1.'', 1 / 2)]),
                image_to_string = (\<lambda>img lang. if img = Image ''PNGt'' then Inl (OSError ''image file is truncated'')
                                              else Inr ''Dieu 1. ''),
                image_to_data = (\<lambda>img lang. Inr demo_data)\<rparr>"

definition blank_libs :: ocr_libs where
  "blank_libs = demo_libs\<lparr>readtext := (\<lambda>ls img. Inr []), image_to_string := (\<lambda>img lang. Inr '' '')\<rparr>"

definition world0 :: world where
  "world0 = \<lparr>model_instance = None, ocr_processor = None, next_object = 0, calls = []\<rparr>"

definition demo_settings :: Settings where
  "demo_settings = \<lparr>ocr_engine = ''tesseract'', ocr_languages = ''vi, en'', max_upload_size = 8\<rparr>"

text \<open>An \<open>Image.open\<close> that identifies the bytes starting with \<open>P\<close> only.\<close>

definition demo_open :: "string \<Rightarrow> exn + image" where
  "demo_open bs = (if py_startswith bs ''P'' then Inr (Image bs)
                   else Inl (UnidentifiedImageError ''cannot identify image file''))"

definition demo_env :: env where
  "demo_env = \<lparr>env_settings = demo_settings, env_hf = demo_hf, env_libs = demo_libs, Image_open = demo_open\<rparr>"

text \<open>The same service when the model cannot be loaded, and when a forward pass fails.\<close>

definition unloadable_env :: env where
  "unloadable_env = demo_env\<lparr>env_hf := demo_hf\<lparr>from_pretrained := Some (OSError ''model not found'')\<rparr>\<rparr>"

definition failing_env :: env where
  "failing_env = demo_env\<lparr>env_hf := demo_hf\<lparr>forward := (\<lambda>ts. Inl (RuntimeError ''out of memory''))\<rparr>\<rparr>"

definition blank_env :: env where
  "blank_env = demo_env\<lparr>env_libs := blank_libs\<rparr>"

definition png :: UploadFile where
  "png = \<lparr>content_type = Some ''image/png'', file_bytes = ''PNG1''\<rparr>"

text \<open>Two processors, and what the example libraries make them return.\<close>

definition demo_tesseract :: OCRProcessor where
  "demo_tesseract = OCRProcessor_init ''Tesseract'' None"

definition demo_easyocr :: OCRProcessor where
  "demo_easyocr = OCRProcessor_init ''easyocr'' (Some [''en''])"

definition demo_tesseract_result :: ocr_result where
  "demo_tesseract_result =
     \<lparr>ocr_text = ''Dieu 1.'',
      lines = [\<lparr>line_text = ''Dieu'', line_confidence = 96 / 100, bbox = Box [10, 80, 55, 104]\<rparr>,
               \<lparr>line_text = ''1.'', line_confidence = 50 / 100, bbox = Box [60, 80, 80, 104]\<rparr>],
      average_confidence = 73 / 100, engine_name = ''tesseract''\<rparr>"

definition demo_easyocr_result :: ocr_result where
  "demo_easyocr_result =
     \<lparr>ocr_text = ''Dieu 1.'',
      lines = [\<lparr>line_text = ''Dieu'', line_confidence = 9 / 10, bbox = demo_quad\<rparr>,
               \<lparr>line_text = ''1.'', line_confidence = 1 / 2, bbox = demo_quad\<rparr>],
      average_confidence = 7 / 10, engine_name = ''easyocr''\<rparr>"


text \<open>States and uploads of the examples.\<close>

definition easyocr_ready :: OCRProcessor where
  "easyocr_ready = \<lparr>engine = ''easyocr'', languages = [''vi'', ''en''],
                    reader = Some [''vi'', ''en''], initialized = True\<rparr>"

definition tesseract_ready :: OCRProcessor where
  "tesseract_ready = \<lparr>engine = ''tesseract'', languages = [''vi'', ''en''],
                      reader = None, initialized = True\<rparr>"

definition world_after_ocr :: world where
  "world_after_ocr = \<lparr>model_instance = None, ocr_processor = Some (0, tesseract_ready), next_object = 1,
                      calls = [CallImageOpen, CallGetOcrProcessor, CallProcessImage]\<rparr>"




definition blank_tesseract_result :: ocr_result where
  "blank_tesseract_result = demo_tesseract_result\<lparr>ocr_text := []\<rparr>"

text \<open>A model whose second logit is the length the batch is padded to, and an upload cut short.\<close>

definition padded_hf :: hf_model where
  "padded_hf = \<lparr>from_pretrained = None,
                forward = (\<lambda>ts. Inr (map (\<lambda>t. [real (length t), real (foldr max (map length ts) 0)]) ts)),
                id2label = None\<rparr>"


section \<open>Properties of the classifier facade\<close>

lemma sum_list_exp_pos: "xs \<noteq> [] \<Longrightarrow> 0 < sum_list (map exp (xs :: real list))"
proof (induction xs)
  case Nil
  then show ?case by simp
next
  case (Cons x xs)
  have tl: "0 \<le> sum_list (map exp xs)"
    by (rule sum_list_nonneg) auto
  have hd: "0 < exp x" by simp
  from add_pos_nonneg [OF hd tl] show ?case by simp
qed

lemma sum_list_divide_const: "sum_list (map (\<lambda>x. f x / (c :: real)) xs) = sum_list (map f xs) / c"
  by (induction xs) (simp_all add: add_divide_distrib)

lemma softmax_sums_to_one: "xs \<noteq> [] \<Longrightarrow> sum_list (softmax xs) = 1"
  using sum_list_exp_pos [of xs] by (simp add: softmax_def sum_list_divide_const)

lemma argmax_less: "xs \<noteq> [] \<Longrightarrow> argmax xs < length xs"
  by (induction xs rule: argmax.induct) (auto simp: Let_def)

lemma argmax_greatest: "xs \<noteq> [] \<Longrightarrow> i < length xs \<Longrightarrow> xs ! i \<le> xs ! argmax xs"
proof (induction xs arbitrary: i rule: argmax.induct)
  case 1
  then show ?case by simp
next
  case (2 x)
  then show ?case by simp
next
  case (3 x y ys)
  show ?case
  proof (cases i)
    case 0
    then show ?thesis by (auto simp: Let_def)
  next
    case (Suc k)
    with 3 have "(y # ys) ! k \<le> (y # ys) ! argmax (y # ys)" by simp
    with Suc show ?thesis by (auto simp: Let_def)
  qed
qed

lemma argmax_first: "xs \<noteq> [] \<Longrightarrow> i < argmax xs \<Longrightarrow> xs ! i < xs ! argmax xs"
proof (induction xs arbitrary: i rule: argmax.induct)
  case 1
  then show ?case by simp
next
  case (2 x)
  then show ?case by simp
next
  case (3 x y ys)
  show ?case
  proof (cases i)
    case 0
    with 3 show ?thesis by (auto simp: Let_def split: if_splits)
  next
    case (Suc k)
    with 3 show ?thesis by (auto simp: Let_def split: if_splits)
  qed
qed

lemma make_result_scores:
  "all_scores (make_result hf probs) = probs"
  "predicted_class (make_result hf probs) = argmax probs"
  "confidence (make_result hf probs) = probs ! argmax probs"
  by (simp_all add: make_result_def Let_def split: option.splits)

lemma predict_one_row:
  assumes "model_loaded c" and "forward hf [txt] = Inr [logits]" and "logits \<noteq> []"
  shows "predict hf c txt = Inr (make_result hf (softmax logits))"
  using assms by (simp add: predict_def bind_exn_def row_result_def softmax_def)

lemma batch_loop_rows:
  assumes "\<forall>i \<in> set js. i < length ps \<and> ps ! i \<noteq> []"
  shows "batch_loop hf ps js acc = Inr (acc @ map (\<lambda>i. make_result hf (ps ! i)) js)"
  using assms
  by (induction js arbitrary: acc) (simp_all add: bind_exn_def py_nth_def row_result_def)

lemma predict_batch_rows:
  assumes "model_loaded c" and "forward hf texts = Inr rows" and "length rows = length texts"
    and "\<forall>i < length texts. rows ! i \<noteq> []"
  shows "predict_batch hf c texts =
           Inr (map (\<lambda>i. make_result hf (softmax (rows ! i))) [0..<length texts])"
proof -
  have "\<forall>i \<in> set [0..<length texts]. i < length (map softmax rows) \<and> map softmax rows ! i \<noteq> []"
    using assms(3,4) by (simp add: softmax_def)
  from batch_loop_rows [OF this, of hf "[]"]
  have "batch_loop hf (map softmax rows) [0..<length texts] [] =
          Inr (map (\<lambda>i. make_result hf (map softmax rows ! i)) [0..<length texts])"
    by simp
  moreover have "map (\<lambda>i. make_result hf (map softmax rows ! i)) [0..<length texts] =
          map (\<lambda>i. make_result hf (softmax (rows ! i))) [0..<length texts]"
    using assms(3) by simp
  ultimately show ?thesis
    using assms(1,2) by (simp add: predict_batch_def bind_exn_def)
qed

text \<open>Whenever \<open>predict_batch\<close> returns, it returns one result per input, whatever the model gave.\<close>

lemma batch_loop_length:
  "batch_loop hf ps js acc = Inr rs \<Longrightarrow> length rs = length acc + length js"
proof (induction js arbitrary: acc)
  case Nil
  then show ?case by simp
next
  case (Cons i js)
  from Cons.prems obtain row where "py_nth ps i = Inr row"
    by (cases "py_nth ps i") (simp_all add: bind_exn_def)
  with Cons.prems obtain result where "row_result hf row = Inr result"
    and "batch_loop hf ps js (acc @ [result]) = Inr rs"
    by (cases "row_result hf row") (simp_all add: bind_exn_def)
  from Cons.IH [OF this(2)] show ?case by simp
qed

lemma predict_batch_length:
  assumes "predict_batch hf c texts = Inr rs"
  shows "length rs = length texts"
proof -
  from assms obtain logits where "forward hf texts = Inr logits"
    by (cases "forward hf texts") (simp_all add: predict_batch_def bind_exn_def split: if_splits)
  with assms have "batch_loop hf (map softmax logits) [0..<length texts] [] = Inr rs"
    by (simp add: predict_batch_def bind_exn_def split: if_splits)
  from batch_loop_length [OF this] show ?thesis by simp
qed

lemma demo_predict_class:
  "predicted_class (make_result demo_hf (softmax [6, 1])) = 0 \<and>
   predicted_label (make_result demo_hf (softmax [6, 1])) = Some ''civil''"
proof -
  have pos: "0 < exp (6 :: real) + exp 1"
    by (simp add: add_pos_pos)
  have "\<not> exp (6 :: real) / (exp 6 + exp 1) < exp 1 / (exp 6 + exp 1)"
    using pos by (simp add: divide_less_cancel)
  then have "argmax (softmax [6, 1]) = 0"
    by (simp add: softmax_def Let_def)
  then show ?thesis
    by (simp add: make_result_def Let_def demo_hf_def label_of_def)
qed

text \<open>
  Claim C1. When the model is loaded and the forward pass yields one non-empty row of
  logits for the text, \<open>predict\<close> returns a result whose \<open>all_scores\<close> sum to 1
  (exactly, with floats read as reals), whose \<open>predicted_class\<close> is the index of the
  maximal score (the first one when several are maximal), and whose \<open>confidence\<close> is
  \<open>all_scores[predicted_class]\<close>. Nothing here needs the text to be non-empty.
\<close>

theorem predict_scores_sum_argmax:
  assumes "model_loaded c" and "forward hf [txt] = Inr [logits]" and "logits \<noteq> []"
  shows "\<exists>r. predict hf c txt = Inr r \<and>
             sum_list (all_scores r) = 1 \<and>
             predicted_class r < length (all_scores r) \<and>
             (\<forall>i < length (all_scores r). all_scores r ! i \<le> all_scores r ! predicted_class r) \<and>
             (\<forall>i < predicted_class r. all_scores r ! i < all_scores r ! predicted_class r) \<and>
             confidence r = all_scores r ! predicted_class r"
proof -
  let ?p = "softmax logits"
  let ?r = "make_result hf ?p"
  have ne: "?p \<noteq> []"
    using assms(3) by (simp add: softmax_def)
  have ret: "predict hf c txt = Inr ?r"
    by (rule predict_one_row [OF assms])
  have total: "sum_list (all_scores ?r) = 1"
    using softmax_sums_to_one [OF assms(3)] by (simp add: make_result_scores)
  have idx: "predicted_class ?r < length (all_scores ?r)"
    using argmax_less [OF ne] by (simp add: make_result_scores)
  have top: "\<forall>i < length (all_scores ?r). all_scores ?r ! i \<le> all_scores ?r ! predicted_class ?r"
    using argmax_greatest [OF ne] by (simp add: make_result_scores)
  have first: "\<forall>i < predicted_class ?r. all_scores ?r ! i < all_scores ?r ! predicted_class ?r"
    using argmax_first [OF ne] by (simp add: make_result_scores)
  have conf: "confidence ?r = all_scores ?r ! predicted_class ?r"
    by (simp add: make_result_scores)
  from ret total idx top first conf show ?thesis by blast
qed

theorem predict_scores_sum_argmax_witness:
  "\<exists>r. predict demo_hf loaded ''Dieu 1'' = Inr r \<and>
       sum_list (all_scores r) = 1 \<and>
       predicted_class r = 0 \<and> predicted_label r = Some ''civil'' \<and>
       confidence r = all_scores r ! 0"
proof -
  have l: "model_loaded loaded"
    by (simp add: loaded_def)
  have f: "forward demo_hf [''Dieu 1''] = Inr [[6, 1]]"
    by (simp add: demo_hf_def)
  have n: "[6, 1 :: real] \<noteq> []"
    by simp
  from predict_scores_sum_argmax [OF l f n] obtain r where
    r: "predict demo_hf loaded ''Dieu 1'' = Inr r" "sum_list (all_scores r) = 1"
       "confidence r = all_scores r ! predicted_class r"
    by blast
  from predict_one_row [OF l f n] r(1) have "r = make_result demo_hf (softmax [6, 1])"
    by simp
  with demo_predict_class have "predicted_class r = 0" and "predicted_label r = Some ''civil''"
    by simp_all
  with r show ?thesis by simp
qed

lemma padded_classes:
  "predicted_class (make_result padded_hf (softmax [6, 9])) = 1"
  "predicted_class (make_result padded_hf (softmax [6, 6])) = 0"
proof -
  have pos: "0 < exp (6 :: real) + exp 9"
    by (simp add: add_pos_pos)
  have "exp (6 :: real) / (exp 6 + exp 9) < exp 9 / (exp 6 + exp 9)"
    using pos by (simp add: divide_less_cancel)
  then have "argmax (softmax [6, 9]) = 1"
    by (simp add: softmax_def Let_def)
  then show "predicted_class (make_result padded_hf (softmax [6, 9])) = 1"
    by (simp add: make_result_scores)
  have "argmax (softmax [6, 6]) = 0"
    by (simp add: softmax_def Let_def)
  then show "predicted_class (make_result padded_hf (softmax [6, 6])) = 0"
    by (simp add: make_result_scores)
qed

text \<open>
  Claim C2 fails when the batched forward pass gives a text another row of logits than
  the text gets alone, as padding to the longest text of the batch can. Here the second
  logit is the padded length: in the batch the first text is put in class 1, alone in
  class 0.
\<close>

theorem predict_batch_differs_from_predict:
  "predict_batch padded_hf loaded [''Dieu 1'', ''Khoan 2 a''] =
     Inr [make_result padded_hf (softmax [6, 9]), make_result padded_hf (softmax [9, 9])] \<and>
   predict padded_hf loaded ''Dieu 1'' = Inr (make_result padded_hf (softmax [6, 6])) \<and>
   predicted_class (make_result padded_hf (softmax [6, 9])) = 1 \<and>
   predicted_class (make_result padded_hf (softmax [6, 6])) = 0 \<and>
   make_result padded_hf (softmax [6, 9]) \<noteq> make_result padded_hf (softmax [6, 6])"
proof -
  let ?texts = "[''Dieu 1'', ''Khoan 2 a'']"
  let ?rows = "[[6, 9], [9, 9 :: real]]"
  have l: "model_loaded loaded"
    by (simp add: loaded_def)
  have f: "forward padded_hf ?texts = Inr ?rows"
    by (simp add: padded_hf_def)
  have ne: "\<forall>i < length ?texts. ?rows ! i \<noteq> []"
    by (simp add: All_less_Suc2 numeral_2_eq_2)
  from predict_batch_rows [OF l f _ ne]
  have b: "predict_batch padded_hf loaded ?texts =
     Inr [make_result padded_hf (softmax [6, 9]), make_result padded_hf (softmax [9, 9])]"
    by (simp add: upt_rec)
  have f1: "forward padded_hf [''Dieu 1''] = Inr [[6, 6]]"
    by (simp add: padded_hf_def)
  from predict_one_row [OF l f1]
  have p: "predict padded_hf loaded ''Dieu 1'' = Inr (make_result padded_hf (softmax [6, 6]))"
    by simp
  have "make_result padded_hf (softmax [6, 9]) \<noteq> make_result padded_hf (softmax [6, 6])"
    using padded_classes by (metis zero_neq_one)
  with b p padded_classes show ?thesis by simp
qed

text \<open>
  Claim C2, amended. When the model is loaded and the batched forward pass yields one
  non-empty row of logits per text, \<open>predict_batch\<close> returns exactly one result per
  input, in order; the result at each index is built from that index's row of the
  batched pass the way \<open>predict\<close> builds its result from its own row, and it is the
  result of \<open>predict\<close> on that text alone wherever the forward pass on the text alone
  yields that same row.
\<close>

theorem predict_batch_one_result_per_row:
  assumes "model_loaded c" and "forward hf texts = Inr rows" and "length rows = length texts"
    and "\<forall>i < length texts. rows ! i \<noteq> []"
  shows "\<exists>rs. predict_batch hf c texts = Inr rs \<and> length rs = length texts \<and>
              (\<forall>i < length texts.
                 rs ! i = make_result hf (softmax (rows ! i)) \<and>
                 (forward hf [texts ! i] = Inr [rows ! i] \<longrightarrow>
                    predict hf c (texts ! i) = Inr (rs ! i)))"
proof -
  let ?rs = "map (\<lambda>i. make_result hf (softmax (rows ! i))) [0..<length texts]"
  have ret: "predict_batch hf c texts = Inr ?rs"
    by (rule predict_batch_rows [OF assms])
  have len: "length ?rs = length texts"
    by simp
  have each: "\<forall>i < length texts.
                 ?rs ! i = make_result hf (softmax (rows ! i)) \<and>
                 (forward hf [texts ! i] = Inr [rows ! i] \<longrightarrow>
                    predict hf c (texts ! i) = Inr (?rs ! i))"
  proof (intro allI impI conjI)
    fix i assume i: "i < length texts"
    then show "?rs ! i = make_result hf (softmax (rows ! i))"
      by simp
    assume alone: "forward hf [texts ! i] = Inr [rows ! i]"
    from assms(4) i have "rows ! i \<noteq> []"
      by simp
    from predict_one_row [OF assms(1) alone this] i
    show "predict hf c (texts ! i) = Inr (?rs ! i)"
      by simp
  qed
  from ret len each show ?thesis by blast
qed

theorem predict_batch_one_result_per_row_witness:
  "\<exists>rs. predict_batch demo_hf loaded [''Dieu 1'', ''Khoan 2 a''] = Inr rs \<and> length rs = 2 \<and>
        rs ! 0 = make_result demo_hf (softmax [6, 1]) \<and>
        rs ! 1 = make_result demo_hf (softmax [9, 1]) \<and>
        predict demo_hf loaded ''Dieu 1'' = Inr (rs ! 0) \<and>
        predict demo_hf loaded ''Khoan 2 a'' = Inr (rs ! 1)"
proof -
  let ?texts = "[''Dieu 1'', ''Khoan 2 a'']"
  let ?rows = "[[6, 1], [9, 1 :: real]]"
  have l: "model_loaded loaded"
    by (simp add: loaded_def)
  have f: "forward demo_hf ?texts = Inr ?rows"
    by (simp add: demo_hf_def)
  have n: "length ?rows = length ?texts"
    by simp
  have ne: "\<forall>i < length ?texts. ?rows ! i \<noteq> []"
    by (simp add: All_less_Suc2 numeral_2_eq_2)
  have a0: "forward demo_hf [?texts ! 0] = Inr [?rows ! 0]"
    and a1: "forward demo_hf [?texts ! 1] = Inr [?rows ! 1]"
    by (simp_all add: demo_hf_def)
  from predict_batch_one_result_per_row [OF l f n ne]
  obtain rs where rs: "predict_batch demo_hf loaded ?texts = Inr rs" "length rs = length ?texts"
    and each: "\<forall>i < length ?texts.
                 rs ! i = make_result demo_hf (softmax (?rows ! i)) \<and>
                 (forward demo_hf [?texts ! i] = Inr [?rows ! i] \<longrightarrow>
                    predict demo_hf loaded (?texts ! i) = Inr (rs ! i))"
    by blast
  have i0: "(0 :: nat) < length ?texts" and i1: "(1 :: nat) < length ?texts"
    by simp_all
  from each [rule_format, OF i0] a0
  have r0: "rs ! 0 = make_result demo_hf (softmax [6, 1])"
    and p0: "predict demo_hf loaded ''Dieu 1'' = Inr (rs ! 0)"
    by simp_all
  from each [rule_format, OF i1] a1
  have r1: "rs ! 1 = make_result demo_hf (softmax [9, 1])"
    and p1: "predict demo_hf loaded ''Khoan 2 a'' = Inr (rs ! 1)"
    by simp_all
  from rs r0 p0 r1 p1 show ?thesis
    by simp
qed

section \<open>Properties of the OCR facade\<close>

text \<open>The loops, said as maps and filters over their input.\<close>

lemma avg_confidence_value:
  "avg_confidence cs = Inr (if cs = [] then 0 else sum_list cs / real (length cs))"
  by (simp add: avg_confidence_def py_truediv_def)

lemma easyocr_loop_acc:
  "easyocr_loop rs ts cs fs =
     (ts @ map (\<lambda>(b, t, c). \<lparr>line_text = t, line_confidence = c, bbox = b\<rparr>) rs,
      cs @ map (\<lambda>(b, t, c). c) rs,
      fs @ map (\<lambda>(b, t, c). t) rs)"
  by (induction rs arbitrary: ts cs fs) auto

lemma tesseract_loop_acc:
  "tesseract_loop d js ls cs = Inr (ls', cs') \<Longrightarrow>
     ls' = ls @ map (box_line d) (filter (\<lambda>i. 0 < py_int (d_conf d ! i)) js) \<and>
     cs' = cs @ map (\<lambda>i. d_conf d ! i / 100) (filter (\<lambda>i. 0 < py_int (d_conf d ! i)) js)"
proof (induction js arbitrary: ls cs)
  case Nil
  then show ?case by simp
next
  case (Cons i js)
  show ?case
  proof (cases "i < length (d_conf d) \<and> 0 < py_int (d_conf d ! i)")
    case True
    with Cons.prems have ok: "i < length (d_text d)" "i < length (d_left d)" "i < length (d_top d)"
      "i < length (d_width d)" "i < length (d_height d)"
      by (auto simp: bind_exn_def py_nth_def split: if_splits)
    with True Cons.prems have "tesseract_loop d js (ls @ [box_line d i]) (cs @ [d_conf d ! i / 100]) = Inr (ls', cs')"
      by (simp add: bind_exn_def py_nth_def box_line_def)
    from Cons.IH [OF this] True show ?thesis by simp
  next
    case False
    with Cons.prems have "i < length (d_conf d)"
      by (auto simp: bind_exn_def py_nth_def split: if_splits)
    with False Cons.prems have "tesseract_loop d js ls cs = Inr (ls', cs')"
      by (simp add: bind_exn_def py_nth_def)
    from Cons.IH [OF this] False \<open>i < length (d_conf d)\<close> show ?thesis by simp
  qed
qed

lemma tesseract_loop_total:
  assumes "\<forall>i \<in> set js. i < length (d_conf d) \<and> i < length (d_text d) \<and> i < length (d_left d) \<and>
             i < length (d_top d) \<and> i < length (d_width d) \<and> i < length (d_height d)"
  shows "\<exists>out. tesseract_loop d js ls cs = Inr out"
  using assms by (induction js arbitrary: ls cs) (simp_all add: bind_exn_def py_nth_def)

lemma tesseract_loop_conf_length:
  "tesseract_loop d js ls cs = Inr out \<Longrightarrow> \<forall>i \<in> set js. i < length (d_conf d)"
proof (induction js arbitrary: ls cs)
  case Nil
  then show ?case by simp
next
  case (Cons i js)
  from Cons.prems have i: "i < length (d_conf d)"
    by (auto simp: bind_exn_def py_nth_def split: if_splits)
  from Cons.prems i obtain ls2 cs2 where "tesseract_loop d js ls2 cs2 = Inr out"
    by (auto simp: bind_exn_def py_nth_def split: if_splits)
  from Cons.IH [OF this] i show ?case by simp
qed

lemma process_with_easyocr_result:
  assumes "process_with_easyocr libs p img = Inr r"
  shows "\<exists>ls res. reader p = Some ls \<and> readtext libs ls img = Inr res \<and>
           r = \<lparr>ocr_text = py_join '' '' (map (\<lambda>(b, t, c). t) res),
                lines = map (\<lambda>(b, t, c). \<lparr>line_text = t, line_confidence = c, bbox = b\<rparr>) res,
                average_confidence =
                  (if res = [] then 0 else sum_list (map (\<lambda>(b, t, c). c) res) / real (length res)),
                engine_name = ''easyocr''\<rparr>"
proof -
  from assms obtain ls where ls: "reader p = Some ls"
    by (cases "reader p") (simp_all add: process_with_easyocr_def)
  with assms obtain res where res: "readtext libs ls img = Inr res"
    by (cases "readtext libs ls img") (simp_all add: process_with_easyocr_def bind_exn_def)
  from assms ls res have "r = \<lparr>ocr_text = py_join '' '' (map (\<lambda>(b, t, c). t) res),
                lines = map (\<lambda>(b, t, c). \<lparr>line_text = t, line_confidence = c, bbox = b\<rparr>) res,
                average_confidence =
                  (if res = [] then 0 else sum_list (map (\<lambda>(b, t, c). c) res) / real (length res)),
                engine_name = ''easyocr''\<rparr>"
    by (auto simp add: process_with_easyocr_def bind_exn_def easyocr_loop_acc avg_confidence_value)
  with ls res show ?thesis by blast
qed

lemma process_with_tesseract_result:
  assumes "process_with_tesseract libs p img = Inr r"
  shows "\<exists>raw d. image_to_string libs img (lang_string p) = Inr raw \<and>
           image_to_data libs img (lang_string p) = Inr d \<and>
           r = \<lparr>ocr_text = py_strip raw, lines = map (box_line d) (kept_boxes d),
                average_confidence =
                  (if kept_boxes d = [] then 0
                   else sum_list (map (\<lambda>i. d_conf d ! i / 100) (kept_boxes d)) / real (length (kept_boxes d))),
                engine_name = ''tesseract''\<rparr>"
proof -
  from assms obtain raw where s: "image_to_string libs img (lang_string p) = Inr raw"
    by (cases "image_to_string libs img (lang_string p)") (simp_all add: process_with_tesseract_def bind_exn_def)
  with assms obtain d where d: "image_to_data libs img (lang_string p) = Inr d"
    by (cases "image_to_data libs img (lang_string p)") (simp_all add: process_with_tesseract_def bind_exn_def)
  with assms s obtain ls cs where l: "tesseract_loop d [0..<length (d_text d)] [] [] = Inr (ls, cs)"
    by (cases "tesseract_loop d [0..<length (d_text d)] [] []")
       (auto simp add: process_with_tesseract_def bind_exn_def)
  from tesseract_loop_acc [OF l] have ls: "ls = map (box_line d) (kept_boxes d)"
    and cs: "cs = map (\<lambda>i. d_conf d ! i / 100) (kept_boxes d)"
    by (simp_all add: kept_boxes_def)
  from assms s d l have "r = \<lparr>ocr_text = py_strip raw, lines = ls,
              average_confidence = (if cs = [] then 0 else sum_list cs / real (length cs)),
              engine_name = ''tesseract''\<rparr>"
    by (auto simp add: process_with_tesseract_def bind_exn_def avg_confidence_value)
  with s d ls cs show ?thesis by simp
qed

lemma process_with_tesseract_conf_length:
  assumes "process_with_tesseract libs p img = Inr r" and "image_to_data libs img (lang_string p) = Inr d"
  shows "length (d_text d) \<le> length (d_conf d)"
proof -
  from assms obtain raw where s: "image_to_string libs img (lang_string p) = Inr raw"
    by (cases "image_to_string libs img (lang_string p)") (simp_all add: process_with_tesseract_def bind_exn_def)
  with assms obtain out where "tesseract_loop d [0..<length (d_text d)] [] [] = Inr out"
    by (cases "tesseract_loop d [0..<length (d_text d)] [] []")
       (auto simp add: process_with_tesseract_def bind_exn_def)
  from tesseract_loop_conf_length [OF this] show ?thesis
    by (cases "d_text d = []") (auto simp: not_less dest: bspec [where x = "length (d_text d) - 1"])
qed

lemma py_int_pos: "0 < py_int x \<Longrightarrow> 1 \<le> x"
  by (auto simp: py_int_def split: if_splits)

lemma kept_boxes_conf: "i \<in> set (kept_boxes d) \<Longrightarrow> i < length (d_text d) \<and> 1 \<le> d_conf d ! i"
  by (simp add: kept_boxes_def py_int_pos)

lemma initialize_fields:
  "initialize libs p = Inr p' \<Longrightarrow> engine p' = engine p \<and> languages p' = languages p"
  by (auto simp: initialize_def split: if_splits option.splits)

lemma process_image_backend:
  assumes "fst (process_image libs p img) = Inr r"
  shows "\<exists>p'. languages p' = languages p \<and>
           (process_with_easyocr libs p' img = Inr r \<or> process_with_tesseract libs p' img = Inr r)"
proof (cases "initialized p")
  case True
  with assms show ?thesis
    by (auto simp: process_image_def split: if_splits)
next
  case False
  with assms obtain p' where i: "initialize libs p = Inr p'"
    by (cases "initialize libs p") (simp_all add: process_image_def)
  with assms False have "process_with_easyocr libs p' img = Inr r \<or> process_with_tesseract libs p' img = Inr r"
    by (auto simp: process_image_def split: if_splits)
  with initialize_fields [OF i] show ?thesis by blast
qed

lemma mean_of_lines:
  "line_confidence \<circ> (\<lambda>(b, t, c). \<lparr>line_text = t, line_confidence = c, bbox = b\<rparr>) = (\<lambda>(b, t, c). c)"
  "line_confidence \<circ> box_line d = (\<lambda>i. d_conf d ! i / 100)"
  by (auto simp: box_line_def fun_eq_iff)

lemma unit_sum_bounds:
  "\<forall>c \<in> set cs. 0 \<le> c \<and> c \<le> (1 :: real) \<Longrightarrow> 0 \<le> sum_list cs \<and> sum_list cs \<le> real (length cs)"
  by (induction cs) auto

lemma unit_mean_bounds:
  assumes "\<forall>c \<in> set cs. 0 \<le> c \<and> c \<le> (1 :: real)"
  shows "0 \<le> (if cs = [] then 0 else sum_list cs / real (length cs)) \<and>
         (if cs = [] then 0 else sum_list cs / real (length cs)) \<le> 1"
  using unit_sum_bounds [OF assms] by (auto simp: divide_le_eq)

lemma process_image_average:
  assumes "fst (process_image libs p img) = Inr r"
  shows "average_confidence r =
        (if lines r = [] then 0
         else sum_list (map line_confidence (lines r)) / real (length (lines r)))"
proof -
  from process_image_backend [OF assms] obtain p' where
    "process_with_easyocr libs p' img = Inr r \<or> process_with_tesseract libs p' img = Inr r"
    by blast
  then show ?thesis
  proof
    assume "process_with_easyocr libs p' img = Inr r"
    from process_with_easyocr_result [OF this] show ?thesis
      by (auto simp: mean_of_lines)
  next
    assume "process_with_tesseract libs p' img = Inr r"
    from process_with_tesseract_result [OF this] show ?thesis
      by (auto simp: mean_of_lines)
  qed
qed

text \<open>The example libraries, evaluated.\<close>

lemmas char_eval = char_of_def bit_Suc_0_iff

lemma py_lower_Tesseract: "py_lower ''Tesseract'' = ''tesseract''"
  by (simp add: py_lower_def py_lower_char_def char_eval)

lemma demo_tesseract_fields:
  "engine demo_tesseract = ''tesseract''" "languages demo_tesseract = [''vi'', ''en'']"
  "initialized demo_tesseract = False" "reader demo_tesseract = None"
  by (simp_all add: demo_tesseract_def OCRProcessor_init_def py_lower_Tesseract languages_or_default_def)

lemma demo_tesseract_loop:
  "tesseract_loop demo_data [0..<length (d_text demo_data)] [] [] =
     Inr (lines demo_tesseract_result, [96 / 100, 50 / 100])"
  by (simp add: demo_data_def demo_tesseract_result_def upt_rec bind_exn_def py_nth_def py_int_def)

lemma demo_strip: "py_strip ''Dieu 1. '' = ''Dieu 1.''"
  by (simp add: py_strip_def py_isspace_def)

lemma demo_tesseract_run:
  "process_with_tesseract demo_libs demo_tesseract (Image ''PNG1'') = Inr demo_tesseract_result"
  by (simp add: process_with_tesseract_def demo_libs_def bind_exn_def demo_tesseract_loop demo_strip
      avg_confidence_def py_truediv_def demo_tesseract_result_def)

lemma demo_process_image_tesseract:
  "fst (process_image demo_libs demo_tesseract (Image ''PNG1'')) = Inr demo_tesseract_result"
  using demo_tesseract_run
  by (simp add: process_image_def initialize_def demo_tesseract_fields demo_libs_def
      process_with_tesseract_def lang_string_def)

lemma demo_easyocr_fields:
  "engine demo_easyocr = ''easyocr''" "languages demo_easyocr = [''en'']"
  "initialized demo_easyocr = False" "reader demo_easyocr = None"
  by (simp_all add: demo_easyocr_def OCRProcessor_init_def py_lower_def py_lower_char_def
      languages_or_default_def)

lemma demo_process_image_easyocr:
  "fst (process_image demo_libs demo_easyocr (Image ''PNG1'')) = Inr demo_easyocr_result"
  by (simp add: process_image_def initialize_def demo_easyocr_fields demo_libs_def
      process_with_easyocr_def bind_exn_def avg_confidence_def py_truediv_def demo_easyocr_result_def)


text \<open>
  Claim C3. For both backends, when \<open>process_image\<close> returns a result, every per-line
  confidence and the average confidence lie in \<open>[0, 1]\<close>, provided each backend reports
  on its native scale: EasyOCR within \<open>[0, 1]\<close> (the code passes these on unchanged)
  and Tesseract at most 100. For Tesseract the confidences of the result are the native
  ones divided by 100.
\<close>

theorem ocr_confidences_in_unit_interval:
  assumes run: "fst (process_image libs p img) = Inr r"
    and easy: "\<forall>ls res. readtext libs ls img = Inr res \<longrightarrow> (\<forall>(b, t, c) \<in> set res. 0 \<le> c \<and> c \<le> 1)"
    and tess: "\<forall>lang d. image_to_data libs img lang = Inr d \<longrightarrow> (\<forall>c \<in> set (d_conf d). c \<le> 100)"
  shows "(\<forall>l \<in> set (lines r). 0 \<le> line_confidence l \<and> line_confidence l \<le> 1) \<and>
         0 \<le> average_confidence r \<and> average_confidence r \<le> 1 \<and>
         (engine_name r = ''tesseract'' \<longrightarrow>
            (\<exists>d. image_to_data libs img (lang_string p) = Inr d \<and>
                 map line_confidence (lines r) = map (\<lambda>i. d_conf d ! i / 100) (kept_boxes d)))"
proof -
  from process_image_backend [OF run] obtain p' where
    langs: "languages p' = languages p" and
    backend: "process_with_easyocr libs p' img = Inr r \<or> process_with_tesseract libs p' img = Inr r"
    by blast
  have ls: "lang_string p' = lang_string p"
    using langs by (simp add: lang_string_def)
  have each: "(\<forall>l \<in> set (lines r). 0 \<le> line_confidence l \<and> line_confidence l \<le> 1) \<and>
         (engine_name r = ''tesseract'' \<longrightarrow>
            (\<exists>d. image_to_data libs img (lang_string p) = Inr d \<and>
                 map line_confidence (lines r) = map (\<lambda>i. d_conf d ! i / 100) (kept_boxes d)))"
    using backend
  proof
    assume "process_with_easyocr libs p' img = Inr r"
    from process_with_easyocr_result [OF this] obtain lgs res where
      res: "readtext libs lgs img = Inr res" and
      l: "lines r = map (\<lambda>(b, t, c). \<lparr>line_text = t, line_confidence = c, bbox = b\<rparr>) res" and
      e: "engine_name r = ''easyocr''"
      by auto
    from easy res have "\<forall>(b, t, c) \<in> set res. 0 \<le> c \<and> c \<le> 1"
      by blast
    with l e show ?thesis by auto
  next
    assume t: "process_with_tesseract libs p' img = Inr r"
    from process_with_tesseract_result [OF t] obtain d where
      d: "image_to_data libs img (lang_string p') = Inr d" and
      l: "lines r = map (box_line d) (kept_boxes d)"
      by auto
    from process_with_tesseract_conf_length [OF t d] have len: "length (d_text d) \<le> length (d_conf d)" .
    from tess d have hundred: "\<forall>c \<in> set (d_conf d). c \<le> 100"
      by blast
    have "\<forall>i \<in> set (kept_boxes d). 0 \<le> d_conf d ! i / 100 \<and> d_conf d ! i / 100 \<le> 1"
    proof
      fix i assume i: "i \<in> set (kept_boxes d)"
      from kept_boxes_conf [OF i] len have "i < length (d_conf d)" and "1 \<le> d_conf d ! i"
        by simp_all
      with hundred have "d_conf d ! i \<le> 100"
        by simp
      with \<open>1 \<le> d_conf d ! i\<close> show "0 \<le> d_conf d ! i / 100 \<and> d_conf d ! i / 100 \<le> 1"
        by simp
    qed
    with l d ls show ?thesis
      by (auto simp: box_line_def)
  qed
  then have "\<forall>c \<in> set (map line_confidence (lines r)). 0 \<le> c \<and> c \<le> 1"
    by simp
  from unit_mean_bounds [OF this]
  have "0 \<le> (if lines r = [] then 0
               else sum_list (map line_confidence (lines r)) / real (length (lines r))) \<and>
        (if lines r = [] then 0
         else sum_list (map line_confidence (lines r)) / real (length (lines r))) \<le> 1"
    by (simp only: length_map map_is_Nil_conv)
  then have "0 \<le> average_confidence r \<and> average_confidence r \<le> 1"
    by (simp only: process_image_average [OF run])
  with each show ?thesis by blast
qed

theorem ocr_confidences_in_unit_interval_witness:
  "fst (process_image demo_libs demo_tesseract (Image ''PNG1'')) = Inr demo_tesseract_result \<and>
   0 \<le> average_confidence demo_tesseract_result \<and> average_confidence demo_tesseract_result \<le> 1 \<and>
   list_all (\<lambda>l. 0 \<le> line_confidence l \<and> line_confidence l \<le> 1) (lines demo_tesseract_result) \<and>
   fst (process_image demo_libs demo_easyocr (Image ''PNG1'')) = Inr demo_easyocr_result \<and>
   0 \<le> average_confidence demo_easyocr_result \<and> average_confidence demo_easyocr_result \<le> 1 \<and>
   list_all (\<lambda>l. 0 \<le> line_confidence l \<and> line_confidence l \<le> 1) (lines demo_easyocr_result)"
proof -
  let ?img = "Image ''PNG1''"
  have easy: "\<forall>ls res. readtext demo_libs ls ?img = Inr res \<longrightarrow> (\<forall>(b, t, c) \<in> set res. 0 \<le> c \<and> c \<le> 1)"
    by (auto simp: demo_libs_def)
  have tess: "\<forall>lang d. image_to_data demo_libs ?img lang = Inr d \<longrightarrow> (\<forall>c \<in> set (d_conf d). c \<le> 100)"
    by (auto simp: demo_libs_def demo_data_def)
  from ocr_confidences_in_unit_interval [OF demo_process_image_tesseract easy tess]
       ocr_confidences_in_unit_interval [OF demo_process_image_easyocr easy tess]
       demo_process_image_tesseract demo_process_image_easyocr
  show ?thesis
    by (simp add: list_all_iff)
qed



text \<open>
  Claim C10. A result of the Tesseract backend holds exactly the boxes that pass
  \<open>int(conf) > 0\<close>, in order. A box whose native confidence is at most 0 is not among
  them, every line of the result has a confidence above 0, and the average is taken
  over the kept boxes only.
\<close>

theorem tesseract_drops_nonpositive_boxes:
  assumes "process_with_tesseract libs p img = Inr r"
  shows "\<exists>d. image_to_data libs img (lang_string p) = Inr d \<and>
           lines r = map (box_line d) (kept_boxes d) \<and>
           (\<forall>i < length (d_text d). d_conf d ! i \<le> 0 \<longrightarrow> i \<notin> set (kept_boxes d)) \<and>
           (\<forall>l \<in> set (lines r). 0 < line_confidence l) \<and>
           average_confidence r =
             (if kept_boxes d = [] then 0
              else sum_list (map (\<lambda>i. d_conf d ! i / 100) (kept_boxes d)) / real (length (kept_boxes d)))"
proof -
  from process_with_tesseract_result [OF assms] obtain raw d where
    d: "image_to_data libs img (lang_string p) = Inr d" and
    r: "r = \<lparr>ocr_text = py_strip raw, lines = map (box_line d) (kept_boxes d),
                average_confidence =
                  (if kept_boxes d = [] then 0
                   else sum_list (map (\<lambda>i. d_conf d ! i / 100) (kept_boxes d)) / real (length (kept_boxes d))),
                engine_name = ''tesseract''\<rparr>"
    by blast
  have drop: "\<forall>i < length (d_text d). d_conf d ! i \<le> 0 \<longrightarrow> i \<notin> set (kept_boxes d)"
    using kept_boxes_conf [of _ d] by fastforce
  have pos: "\<forall>l \<in> set (map (box_line d) (kept_boxes d)). 0 < line_confidence l"
    using kept_boxes_conf [of _ d] by (fastforce simp: box_line_def)
  from d r drop pos show ?thesis by simp
qed

theorem tesseract_drops_nonpositive_boxes_witness:
  "process_with_tesseract demo_libs demo_tesseract (Image ''PNG1'') = Inr demo_tesseract_result \<and>
   d_conf demo_data = [-1, 96, 50, 0] \<and> kept_boxes demo_data = [1, 2] \<and>
   lines demo_tesseract_result = map (box_line demo_data) (kept_boxes demo_data) \<and>
   list_all (\<lambda>l. 0 < line_confidence l) (lines demo_tesseract_result)"
proof -
  from tesseract_drops_nonpositive_boxes [OF demo_tesseract_run]
  obtain d where d: "image_to_data demo_libs (Image ''PNG1'') (lang_string demo_tesseract) = Inr d"
    and l: "lines demo_tesseract_result = map (box_line d) (kept_boxes d)"
    and pos: "\<forall>l \<in> set (lines demo_tesseract_result). 0 < line_confidence l"
    by blast
  from d have "d = demo_data"
    by (simp add: demo_libs_def)
  moreover have "kept_boxes demo_data = [1, 2]"
    by (simp add: kept_boxes_def demo_data_def upt_rec py_int_def)
  ultimately show ?thesis
    using l pos demo_tesseract_run by (simp add: list_all_iff demo_data_def)
qed

section \<open>Properties of the singletons\<close>

lemma py_lower_EasyOCR: "py_lower ''EasyOCR'' = ''easyocr''"
  by (simp add: py_lower_def py_lower_char_def char_eval)

lemma first_mixed_case_call:
  "get_ocr_processor demo_libs ''EasyOCR'' (Some [''vi'', ''en'']) world0 =
     (Inr (0, easyocr_ready),
      world0\<lparr>ocr_processor := Some (0, easyocr_ready), next_object := 1\<rparr>)"
  by (simp add: get_ocr_processor_def new_ocr_processor_def world0_def languages_or_default_def
      OCRProcessor_init_def py_lower_EasyOCR initialize_def demo_libs_def easyocr_ready_def Let_def)

text \<open>
  Claim C8, at an engine name with capitals. The constructor stores the name in lower
  case and \<open>get_ocr_processor\<close> compares the stored name with the name as given, so two
  calls in succession with \<open>"EasyOCR"\<close> and the same languages each construct a
  processor: the first returns object 0, the second object 1.
\<close>

theorem get_ocr_processor_mixed_case_rebuilds:
  "fst (get_ocr_processor demo_libs ''EasyOCR'' (Some [''vi'', ''en'']) world0) = Inr (0, easyocr_ready) \<and>
   fst (get_ocr_processor demo_libs ''EasyOCR'' (Some [''vi'', ''en''])
          (snd (get_ocr_processor demo_libs ''EasyOCR'' (Some [''vi'', ''en'']) world0))) =
     Inr (1, easyocr_ready)"
  by (simp add: first_mixed_case_call)
     (simp add: get_ocr_processor_def new_ocr_processor_def world0_def languages_or_default_def
      OCRProcessor_init_def py_lower_EasyOCR initialize_def demo_libs_def easyocr_ready_def Let_def)

text \<open>The two calls do not return the same instance.\<close>

theorem get_ocr_processor_mixed_case_rebuilds_witness:
  "fst (get_ocr_processor demo_libs ''EasyOCR'' (Some [''vi'', ''en'']) world0) \<noteq>
   fst (get_ocr_processor demo_libs ''EasyOCR'' (Some [''vi'', ''en''])
          (snd (get_ocr_processor demo_libs ''EasyOCR'' (Some [''vi'', ''en'']) world0)))"
  using get_ocr_processor_mixed_case_rebuilds by simp

text \<open>
  With an engine name that is already in lower case the second call does return the
  cached instance, and leaves the state alone.
\<close>

lemma languages_or_default_idem:
  "languages_or_default (Some (languages_or_default langs)) = languages_or_default langs"
  by (simp add: languages_or_default_def split: option.splits)

lemma new_ocr_processor_result:
  assumes "new_ocr_processor libs eng langs w = (Inr (obj, p), w')"
  shows "ocr_processor w' = Some (obj, p) \<and> engine p = py_lower eng \<and>
         languages p = languages_or_default (Some langs)"
proof -
  let ?p0 = "OCRProcessor_init eng (Some langs)"
  from assms obtain p' where i: "initialize libs ?p0 = Inr p'"
    by (cases "initialize libs ?p0") (simp_all add: new_ocr_processor_def Let_def)
  with assms have "p = p'" and "ocr_processor w' = Some (obj, p')"
    by (auto simp: new_ocr_processor_def Let_def)
  with initialize_fields [OF i] show ?thesis
    by (simp add: OCRProcessor_init_def)
qed

lemma get_ocr_processor_cached:
  assumes lower: "py_lower eng = eng"
    and first: "get_ocr_processor libs eng langs w = (Inr (obj, p), w')"
  shows "get_ocr_processor libs eng langs w' = (Inr (obj, p), w')"
proof -
  let ?ls = "languages_or_default langs"
  have hit: "ocr_processor w' = Some (obj, p) \<and> engine p = eng \<and> languages p = ?ls"
  proof (cases "ocr_processor w")
    case None
    with first have "new_ocr_processor libs eng ?ls w = (Inr (obj, p), w')"
      by (simp add: get_ocr_processor_def Let_def)
    from new_ocr_processor_result [OF this] lower show ?thesis
      by (simp add: languages_or_default_idem)
  next
    case (Some op)
    obtain obj0 p0 where op: "op = (obj0, p0)" by (cases op)
    show ?thesis
    proof (cases "engine p0 \<noteq> eng \<or> languages p0 \<noteq> ?ls")
      case True
      with first Some op have "new_ocr_processor libs eng ?ls w = (Inr (obj, p), w')"
        by (simp add: get_ocr_processor_def)
      from new_ocr_processor_result [OF this] lower show ?thesis
        by (simp add: languages_or_default_idem)
    next
      case False
      with first Some op show ?thesis
        by (auto simp: get_ocr_processor_def Let_def)
    qed
  qed
  then show ?thesis
    by (simp add: get_ocr_processor_def Let_def)
qed

lemma get_model_load_failure:
  assumes "model_instance w = None" and "from_pretrained hf = Some e"
  shows "fst (get_model hf w) = Inl e"
  using assms by (simp add: get_model_def load_model_def Let_def)

text \<open>
  Claim C7 fails for the classify endpoint: with no singleton yet and a model that
  cannot be loaded, \<open>/predict\<close> answers 500, not 503.
\<close>

theorem predict_load_failure_is_500:
  "model_instance world0 = None \<and>
   fst (get_model (env_hf unloadable_env) world0) = Inl (OSError ''model not found'') \<and>
   fst (api_predict unloadable_env ''Dieu 1'' world0) =
     Inl (HTTPException 500 ''Prediction failed: model not found'')"
  by (simp add: api_predict_def get_model_def load_model_def unloadable_env_def demo_env_def
      demo_hf_def world0_def log_call_def Let_def)

text \<open>
  Claim C7, amended. When the classifier singleton does not exist yet and loading it
  fails, the health endpoint reports 503 (service unavailable), while \<open>/predict\<close> and
  \<open>/predict/batch\<close> report the generic server error 500 with the loader's message.
\<close>

theorem load_failure_503_health_500_predict:
  assumes "model_instance w = None" and "from_pretrained (env_hf env) = Some e"
  shows "fst (health env w) = Inl (HTTPException 503 (''Service unhealthy: '' @ str_exn e)) \<and>
         fst (api_predict env txt w) = Inl (HTTPException 500 (''Prediction failed: '' @ str_exn e)) \<and>
         fst (api_predict_batch env texts w) =
           Inl (HTTPException 500 (''Batch prediction failed: '' @ str_exn e))"
proof -
  have "model_instance (log_call CallGetModel w) = None"
    using assms(1) by (simp add: log_call_def)
  from get_model_load_failure [OF this assms(2)]
  have "fst (get_model (env_hf env) (log_call CallGetModel w)) = Inl e" .
  then show ?thesis
    by (cases "get_model (env_hf env) (log_call CallGetModel w)")
       (simp add: health_def api_predict_def api_predict_batch_def)
qed

theorem load_failure_503_health_500_predict_witness:
  "fst (health unloadable_env world0) = Inl (HTTPException 503 ''Service unhealthy: model not found'') \<and>
   fst (api_predict unloadable_env ''Dieu 1'' world0) =
     Inl (HTTPException 500 ''Prediction failed: model not found'') \<and>
   fst (api_predict_batch unloadable_env [''Dieu 1'', ''Dieu 2''] world0) =
     Inl (HTTPException 500 ''Batch prediction failed: model not found'')"
proof -
  have none: "model_instance world0 = None"
    by (simp add: world0_def)
  have fails: "from_pretrained (env_hf unloadable_env) = Some (OSError ''model not found'')"
    by (simp add: unloadable_env_def demo_env_def demo_hf_def)
  from load_failure_503_health_500_predict [OF none fails, of "''Dieu 1''" "[''Dieu 1'', ''Dieu 2'']"]
  show ?thesis by simp
qed

section \<open>Properties of the upload endpoints\<close>

lemma validate_world:
  "snd (validate_and_load_image env file w) = w \<or>
   snd (validate_and_load_image env file w) = log_call CallImageOpen w"
  by (simp add: validate_and_load_image_def Let_def)

lemma new_ocr_processor_frame:
  "model_instance (snd (new_ocr_processor libs eng langs w)) = model_instance w \<and>
   calls (snd (new_ocr_processor libs eng langs w)) = calls w"
  by (simp add: new_ocr_processor_def Let_def split: sum.splits)

lemma get_ocr_processor_frame:
  "model_instance (snd (get_ocr_processor libs eng langs w)) = model_instance w \<and>
   calls (snd (get_ocr_processor libs eng langs w)) = calls w"
  by (simp add: get_ocr_processor_def Let_def new_ocr_processor_frame split: option.splits prod.splits)

lemma get_configured_ocr_processor_frame:
  "model_instance (snd (get_configured_ocr_processor env w)) = model_instance w \<and>
   calls (snd (get_configured_ocr_processor env w)) = calls w"
  by (simp add: get_configured_ocr_processor_def Let_def get_ocr_processor_frame)

lemma ocr_stage_frame:
  "model_instance (snd (ocr_stage env file w)) = model_instance w \<and>
   filter is_classifier_call (calls (snd (ocr_stage env file w))) = filter is_classifier_call (calls w)"
proof (cases "validate_and_load_image env file w")
  case (Pair v w1)
  from validate_world [of env "file" w] Pair
  have w1: "model_instance w1 = model_instance w \<and>
            filter is_classifier_call (calls w1) = filter is_classifier_call (calls w)"
    by (auto simp: log_call_def)
  show ?thesis
  proof (cases v)
    case (Inl e)
    with Pair w1 show ?thesis by (simp add: ocr_stage_def)
  next
    case (Inr img)
    let ?w = "log_call CallGetOcrProcessor w1"
    obtain g w2 where g: "get_configured_ocr_processor env ?w = (g, w2)"
      by (cases "get_configured_ocr_processor env ?w")
    from get_configured_ocr_processor_frame [of env ?w] g
    have w2: "model_instance w2 = model_instance w1 \<and> calls w2 = calls w1 @ [CallGetOcrProcessor]"
      by (simp add: log_call_def)
    show ?thesis
    proof (cases g)
      case (Inl e)
      with Pair Inr g w1 w2 show ?thesis by (simp add: ocr_stage_def)
    next
      case (Inr op)
      with Pair \<open>v = Inr img\<close> g w1 w2 show ?thesis
        by (simp add: ocr_stage_def log_call_def split: prod.splits)
    qed
  qed
qed

lemma py_strip_empty: "py_strip [] = []"
  by (simp add: py_strip_def)


lemma demo_validate:
  assumes "env_settings env = demo_settings" and "Image_open env = demo_open"
  shows "validate_and_load_image env png w = (Inr (Image ''PNG1''), log_call CallImageOpen w)"
  using assms
  by (simp add: validate_and_load_image_def png_def py_startswith_def demo_settings_def demo_open_def)

lemma demo_get_processor:
  assumes "env_settings env = demo_settings"
    and "env_libs env = demo_libs \<or> env_libs env = blank_libs"
    and "ocr_processor w = None"
  shows "get_configured_ocr_processor env w =
           (Inr (next_object w, tesseract_ready),
            w\<lparr>ocr_processor := Some (next_object w, tesseract_ready), next_object := Suc (next_object w)\<rparr>)"
proof -
  have low: "py_lower ''tesseract'' = ''tesseract''"
    by (simp add: py_lower_def py_lower_char_def)
  have "get_configured_ocr_processor env w =
          get_ocr_processor (env_libs env) ''tesseract'' (Some [''vi'', ''en'']) w"
    using assms(1)
    by (simp add: get_configured_ocr_processor_def demo_settings_def py_strip_def py_isspace_def)
  with assms(2,3) show ?thesis
    by (auto simp: get_ocr_processor_def new_ocr_processor_def languages_or_default_def
        OCRProcessor_init_def low initialize_def demo_libs_def blank_libs_def tesseract_ready_def Let_def)
qed

lemma ready_lang_string: "lang_string tesseract_ready = lang_string demo_tesseract"
  by (simp add: lang_string_def tesseract_ready_def demo_tesseract_fields)

lemma demo_ready_run:
  "process_image demo_libs tesseract_ready (Image ''PNG1'') = (Inr demo_tesseract_result, tesseract_ready)"
proof -
  have "process_with_tesseract demo_libs tesseract_ready (Image ''PNG1'') =
        process_with_tesseract demo_libs demo_tesseract (Image ''PNG1'')"
    by (simp add: process_with_tesseract_def ready_lang_string)
  with demo_tesseract_run show ?thesis
    by (simp add: process_image_def tesseract_ready_def)
qed

lemma blank_ready_run:
  "process_image blank_libs tesseract_ready (Image ''PNG1'') = (Inr blank_tesseract_result, tesseract_ready)"
proof -
  have "process_with_tesseract blank_libs tesseract_ready (Image ''PNG1'') = Inr blank_tesseract_result"
    by (simp add: process_with_tesseract_def blank_libs_def demo_libs_def bind_exn_def demo_tesseract_loop
        py_strip_def py_isspace_def avg_confidence_def py_truediv_def demo_tesseract_result_def
        blank_tesseract_result_def)
  then show ?thesis
    by (simp add: process_image_def tesseract_ready_def)
qed

lemma demo_ocr_stage:
  assumes "env_settings env = demo_settings" and "Image_open env = demo_open"
    and "env_libs env = demo_libs"
  shows "ocr_stage env png world0 = (Inr demo_tesseract_result, world_after_ocr)"
proof -
  let ?w = "log_call CallGetOcrProcessor (log_call CallImageOpen world0)"
  have "ocr_processor ?w = None"
    by (simp add: log_call_def world0_def)
  from demo_get_processor [OF assms(1) disjI1 [OF assms(3)] this] demo_validate [OF assms(1,2)]
  show ?thesis
    by (simp add: ocr_stage_def assms(3) demo_ready_run log_call_def world0_def world_after_ocr_def)
qed

lemma blank_ocr_stage:
  "ocr_stage blank_env png world0 = (Inr blank_tesseract_result, world_after_ocr)"
proof -
  let ?w = "log_call CallGetOcrProcessor (log_call CallImageOpen world0)"
  have s: "env_settings blank_env = demo_settings" and o: "Image_open blank_env = demo_open"
    and l: "env_libs blank_env = blank_libs"
    by (simp_all add: blank_env_def demo_env_def)
  have "ocr_processor ?w = None"
    by (simp add: log_call_def world0_def)
  from demo_get_processor [OF s disjI2 [OF l] this] demo_validate [OF s o]
  show ?thesis
    by (simp add: ocr_stage_def l blank_ready_run log_call_def world0_def world_after_ocr_def)
qed


text \<open>
  Claim C4. In \<open>ocr_upload_and_classify\<close>, when validation and OCR succeed with result
  \<open>r\<close> and classifying its text raises (in \<open>get_model\<close> or in \<open>predict\<close>), the request
  succeeds: the response holds \<open>r\<close> and no classification.
\<close>

theorem classification_failure_keeps_ocr_result:
  assumes "ocr_stage env file w = (Inr r, w1)"
    and "fst (classify env (ocr_text r) w1) = Inl e"
  shows "fst (ocr_upload_and_classify env file w) = Inr \<lparr>ocr_result = r, classification = None\<rparr>"
  using assms
  by (cases "classify env (ocr_text r) w1") (simp add: ocr_upload_and_classify_def)

theorem classification_failure_keeps_ocr_result_witness:
  "ocr_stage failing_env png world0 = (Inr demo_tesseract_result, world_after_ocr) \<and>
   ocr_text demo_tesseract_result = ''Dieu 1.'' \<and>
   fst (classify failing_env ''Dieu 1.'' world_after_ocr) = Inl (RuntimeError ''out of memory'') \<and>
   fst (ocr_upload_and_classify failing_env png world0) =
     Inr \<lparr>ocr_result = demo_tesseract_result, classification = None\<rparr>"
proof -
  have stage: "ocr_stage failing_env png world0 = (Inr demo_tesseract_result, world_after_ocr)"
    by (rule demo_ocr_stage) (simp_all add: failing_env_def demo_env_def)
  have tx: "ocr_text demo_tesseract_result = ''Dieu 1.''"
    by (simp add: demo_tesseract_result_def)
  have raises: "fst (classify failing_env (ocr_text demo_tesseract_result) world_after_ocr) =
                  Inl (RuntimeError ''out of memory'')"
    by (simp add: tx classify_def get_model_def load_model_def failing_env_def demo_env_def demo_hf_def
        world_after_ocr_def log_call_def new_classifier_def predict_def bind_exn_def Let_def)
  from classification_failure_keeps_ocr_result [OF stage raises] stage tx raises
  show ?thesis by simp
qed

text \<open>
  Claim C5. In \<open>ocr_upload_and_classify\<close>, when validation and OCR succeed and the
  extracted text is empty, the response holds the OCR result and no classification, the
  handler ends in the state the OCR stage left, and that stage made no call to the
  classifier and did not touch the classifier singleton.
\<close>

theorem empty_text_skips_classifier:
  assumes "ocr_stage env file w = (Inr r, w1)" and "ocr_text r = []"
  shows "ocr_upload_and_classify env file w = (Inr \<lparr>ocr_result = r, classification = None\<rparr>, w1) \<and>
         filter is_classifier_call (calls w1) = filter is_classifier_call (calls w) \<and>
         model_instance w1 = model_instance w"
proof -
  from assms have "ocr_upload_and_classify env file w = (Inr \<lparr>ocr_result = r, classification = None\<rparr>, w1)"
    by (simp add: ocr_upload_and_classify_def py_strip_empty)
  moreover from ocr_stage_frame [of env "file" w] assms(1)
  have "filter is_classifier_call (calls w1) = filter is_classifier_call (calls w) \<and>
        model_instance w1 = model_instance w"
    by simp
  ultimately show ?thesis by simp
qed

theorem empty_text_skips_classifier_witness:
  "ocr_text blank_tesseract_result = [] \<and>
   ocr_upload_and_classify blank_env png world0 =
     (Inr \<lparr>ocr_result = blank_tesseract_result, classification = None\<rparr>, world_after_ocr) \<and>
   filter is_classifier_call (calls world_after_ocr) = [] \<and>
   model_instance world_after_ocr = None"
proof -
  have tx: "ocr_text blank_tesseract_result = []"
    by (simp add: blank_tesseract_result_def)
  from empty_text_skips_classifier [OF blank_ocr_stage tx] tx
  show ?thesis by (simp add: world0_def)
qed




end
